theory Spec2Isabelle
  imports Complex_Main
begin

section \<open>Python values and exceptions\<close>

text \<open>
  The three functions of \<^verbatim>\<open>app.py\<close> that carry the scoring path are
  \<^verbatim>\<open>load_data\<close>, \<^verbatim>\<open>predict_cancer_risk\<close> and
  \<^verbatim>\<open>validate_input_range\<close>. Every \<^verbatim>\<open>raise\<close> of the source is a value
  \<open>Inl e\<close> of the result. The \<^verbatim>\<open>except\<close> clauses of the source print a message
  with \<^verbatim>\<open>st.error\<close> and re-raise the same exception, so the exception that leaves
  the function is the one that was raised inside it.

  Numbers are modelled as \<open>real\<close>: Python compares ints and floats exactly, so the
  order of the reals is the order of \<^verbatim>\<open><=\<close> on finite numbers. NaN and the
  infinities are not part of the model.
\<close>

datatype error =
    FileNotFoundError string
  | UnpicklingError
  | ValueError string
  | TypeError
  | IndexError
  | EstimatorError string

text \<open>
  What \<^verbatim>\<open>pickle.load\<close> can hand back. \<open>'m\<close> is the type of estimator objects;
  \<open>RandomForestClassifier\<close> marks the instances of that class, \<open>OtherObject\<close> any
  other object. A dict is the list of its items.
\<close>

datatype 'm pyobj =
    PyNone
  | PyNum real
  | PyStr string
  | PyList "'m pyobj list"
  | PyTuple "'m pyobj list"
  | PyDict "('m pyobj \<times> 'm pyobj) list"
  | RandomForestClassifier 'm
  | OtherObject 'm

fun isinstance_RandomForestClassifier :: "'m pyobj \<Rightarrow> bool" where
  "isinstance_RandomForestClassifier (RandomForestClassifier m) = True"
| "isinstance_RandomForestClassifier _ = False"

fun isinstance_list :: "'m pyobj \<Rightarrow> bool" where
  "isinstance_list (PyList xs) = True"
| "isinstance_list _ = False"

fun isinstance_dict :: "'m pyobj \<Rightarrow> bool" where
  "isinstance_dict (PyDict kvs) = True"
| "isinstance_dict _ = False"

text \<open>Truth value of an object, as \<^verbatim>\<open>not x\<close> reads it: empty containers, zero and None are false.\<close>

fun truthy :: "'m pyobj \<Rightarrow> bool" where
  "truthy PyNone = False"
| "truthy (PyNum r) = (r \<noteq> 0)"
| "truthy (PyStr s) = (s \<noteq> [])"
| "truthy (PyList xs) = (xs \<noteq> [])"
| "truthy (PyTuple xs) = (xs \<noteq> [])"
| "truthy (PyDict kvs) = (kvs \<noteq> [])"
| "truthy (RandomForestClassifier m) = True"
| "truthy (OtherObject m) = True"

section \<open>load_data\<close>

text \<open>
  The state of a path on disk: absent (\<^verbatim>\<open>open\<close> raises FileNotFoundError), present
  but not a pickle (\<^verbatim>\<open>pickle.load\<close> raises UnpicklingError), or the pickle of an object.
\<close>

datatype 'm blob = Missing | Garbled | Pickled "'m pyobj"

definition pickle_load :: "(string \<Rightarrow> 'm blob) \<Rightarrow> string \<Rightarrow> error + 'm pyobj" where
  "pickle_load fs path =
     (case fs path of
        Missing \<Rightarrow> Inl (FileNotFoundError path)
      | Garbled \<Rightarrow> Inl UnpicklingError
      | Pickled obj \<Rightarrow> Inr obj)"

definition load_data :: "(string \<Rightarrow> 'm blob) \<Rightarrow> error + ('m pyobj \<times> 'm pyobj \<times> 'm pyobj)" where
  "load_data fs =
     (case pickle_load fs ''model/random_forest_model.pkl'' of
        Inl e \<Rightarrow> Inl e
      | Inr model \<Rightarrow>
     (case pickle_load fs ''model/feature_names.pkl'' of
        Inl e \<Rightarrow> Inl e
      | Inr feature_names \<Rightarrow>
     (case pickle_load fs ''model/feature_ranges.pkl'' of
        Inl e \<Rightarrow> Inl e
      | Inr feature_ranges \<Rightarrow>
          if \<not> isinstance_RandomForestClassifier model
            then Inl (ValueError ''Loaded model is not a RandomForestClassifier'')
          else if \<not> isinstance_list feature_names \<or> \<not> truthy feature_names
            then Inl (ValueError ''Invalid or empty feature names'')
          else if \<not> isinstance_dict feature_ranges \<or> \<not> truthy feature_ranges
            then Inl (ValueError ''Invalid or empty feature ranges'')
          else Inr (model, feature_names, feature_ranges))))"

section \<open>predict_cancer_risk\<close>

text \<open>
  An estimator object is its two methods; \<open>'s\<close> is whatever state the object carries
  between calls, so that a method may read and change it. Each method takes the
  two-dimensional sample array and returns one entry per row, or raises.
\<close>

record 's estimator =
  predict :: "real list list \<Rightarrow> 's \<Rightarrow> (error + int list) \<times> 's"
  predict_proba :: "real list list \<Rightarrow> 's \<Rightarrow> (error + real list list) \<times> 's"

text \<open>\<^verbatim>\<open>np.array(features).reshape(1, -1)\<close>: the flat vector becomes the only row.\<close>

definition reshape_1 :: "real list \<Rightarrow> real list list" where
  "reshape_1 features = [features]"

text \<open>\<^verbatim>\<open>a[0]\<close>, which raises IndexError on an empty result.\<close>

definition index0 :: "'a list \<Rightarrow> error + 'a" where
  "index0 xs = (case xs of [] \<Rightarrow> Inl IndexError | x # _ \<Rightarrow> Inr x)"

definition predict_cancer_risk ::
  "'s estimator \<Rightarrow> real list \<Rightarrow> 'n list \<Rightarrow> 's \<Rightarrow> (error + int \<times> real list) \<times> 's" where
  "predict_cancer_risk model features feature_names s =
     (if length features \<noteq> length feature_names
        then (Inl (ValueError ''Number of features doesn't match model requirements''), s)
      else
        let features_array = reshape_1 features in
        (case predict model features_array s of
           (Inl e, s1) \<Rightarrow> (Inl e, s1)
         | (Inr ys, s1) \<Rightarrow>
        (case index0 ys of
           Inl e \<Rightarrow> (Inl e, s1)
         | Inr prediction \<Rightarrow>
        (case predict_proba model features_array s1 of
           (Inl e, s2) \<Rightarrow> (Inl e, s2)
         | (Inr ps, s2) \<Rightarrow>
        (case index0 ps of
           Inl e \<Rightarrow> (Inl e, s2)
         | Inr probability \<Rightarrow> (Inr (prediction, probability), s2))))))"

section \<open>validate_input_range\<close>

text \<open>
  \<^verbatim>\<open>min_val, max_val = feature_ranges[feature_name]\<close> iterates the entry: a list or
  tuple gives its elements, a string its characters, a dict its keys; anything else
  is not iterable (TypeError). Other than two elements is a ValueError.
\<close>

fun py_iter :: "'m pyobj \<Rightarrow> error + 'm pyobj list" where
  "py_iter (PyList xs) = Inr xs"
| "py_iter (PyTuple xs) = Inr xs"
| "py_iter (PyStr s) = Inr (map (\<lambda>c. PyStr [c]) s)"
| "py_iter (PyDict kvs) = Inr (map fst kvs)"
| "py_iter _ = Inl TypeError"

definition unpack2 :: "'m pyobj \<Rightarrow> error + ('m pyobj \<times> 'm pyobj)" where
  "unpack2 entry =
     (case py_iter entry of
        Inl e \<Rightarrow> Inl e
      | Inr xs \<Rightarrow>
          (case xs of
             [a, b] \<Rightarrow> Inr (a, b)
           | _ \<Rightarrow> Inl (ValueError ''wrong number of values to unpack (expected 2)'')))"

text \<open>\<^verbatim>\<open>a <= v\<close> and \<^verbatim>\<open>v <= b\<close> for a float \<open>v\<close>: only a number is orderable with it.\<close>

fun le_value :: "'m pyobj \<Rightarrow> real \<Rightarrow> error + bool" where
  "le_value (PyNum a) v = Inr (a \<le> v)"
| "le_value _ v = Inl TypeError"

fun value_le :: "real \<Rightarrow> 'm pyobj \<Rightarrow> error + bool" where
  "value_le v (PyNum b) = Inr (v \<le> b)"
| "value_le v _ = Inl TypeError"

text \<open>
  The chained comparison \<^verbatim>\<open>min_val <= value <= max_val\<close> evaluates its second half
  only when the first is true.
\<close>

definition validate_input_range ::
  "real \<Rightarrow> string \<Rightarrow> ('m pyobj \<times> 'm pyobj) list \<Rightarrow> error + bool" where
  "validate_input_range val feature_name feature_ranges =
     (case map_of feature_ranges (PyStr feature_name) of
        None \<Rightarrow> Inr True
      | Some entry \<Rightarrow>
     (case unpack2 entry of
        Inl e \<Rightarrow> Inl e
      | Inr (min_val, max_val) \<Rightarrow>
     (case le_value min_val val of
        Inl e \<Rightarrow> Inl e
      | Inr False \<Rightarrow> Inr False
      | Inr True \<Rightarrow> value_le val max_val)))"

section \<open>Estimators and artifacts used in the scenarios\<close>

text \<open>
  The stand-in classifier of Scenario 5: label 1 and probabilities (0.2, 0.8) for
  every row, no state.
\<close>

definition stub :: "unit estimator" where
  "stub = \<lparr> predict = (\<lambda>X s. (Inr (map (\<lambda>row. 1) X), s)),
             predict_proba = (\<lambda>X s. (Inr (map (\<lambda>row. [2 / 10, 8 / 10]) X), s)) \<rparr>"

text \<open>
  The same answers from an object that counts its calls: its state changes with
  every call, its output does not.
\<close>

definition counting_stub :: "nat estimator" where
  "counting_stub = \<lparr> predict = (\<lambda>X s. (Inr (map (\<lambda>row. 1) X), Suc s)),
             predict_proba = (\<lambda>X s. (Inr (map (\<lambda>row. [2 / 10, 8 / 10]) X), Suc s)) \<rparr>"

text \<open>
  A stand-in whose answers are not a two-class result: label 2 and the row (0.5, 0.7).
\<close>

definition skewed_stub :: "unit estimator" where
  "skewed_stub = \<lparr> predict = (\<lambda>X s. (Inr (map (\<lambda>row. 2) X), s)),
             predict_proba = (\<lambda>X s. (Inr (map (\<lambda>row. [5 / 10, 7 / 10]) X), s)) \<rparr>"

text \<open>
  An estimator is deterministic when what its methods return for a sample array does
  not depend on the state the object is in.
\<close>

definition deterministic :: "'s estimator \<Rightarrow> bool" where
  "deterministic model \<longleftrightarrow>
     (\<forall>X s s'. fst (predict model X s) = fst (predict model X s')
             \<and> fst (predict_proba model X s) = fst (predict_proba model X s'))"

text \<open>
  A probability pair: two values, each in [0, 1], summing to 1 within \<open>1e-6\<close>.
\<close>

definition is_distribution :: "real list \<Rightarrow> bool" where
  "is_distribution p \<longleftrightarrow>
     length p = 2 \<and> list_all (\<lambda>x. 0 \<le> x \<and> x \<le> 1) p \<and> \<bar>sum_list p - 1\<bar> \<le> 1 / 1000000"

text \<open>
  The range map of Scenarios 1 to 3, \<^verbatim>\<open>{"a": (0, 10)}\<close>, and one whose bounds are
  the wrong way round, \<^verbatim>\<open>{"a": (10, 0)}\<close>.
\<close>

definition scenario_ranges :: "(unit pyobj \<times> unit pyobj) list" where
  "scenario_ranges = [(PyStr ''a'', PyTuple [PyNum 0, PyNum 10])]"

definition inverted_ranges :: "(unit pyobj \<times> unit pyobj) list" where
  "inverted_ranges = [(PyStr ''a'', PyTuple [PyNum 10, PyNum 0])]"

text \<open>
  A \<^verbatim>\<open>model\<close> directory holding the three files that \<^verbatim>\<open>load_data\<close> opens.
\<close>

definition disk :: "'m blob \<Rightarrow> 'm blob \<Rightarrow> 'm blob \<Rightarrow> string \<Rightarrow> 'm blob" where
  "disk m n r path =
     (if path = ''model/random_forest_model.pkl'' then m
      else if path = ''model/feature_names.pkl'' then n
      else if path = ''model/feature_ranges.pkl'' then r
      else Missing)"

section \<open>Auxiliary facts\<close>

lemma disk_paths:
  "disk m n r ''model/random_forest_model.pkl'' = m"
  "disk m n r ''model/feature_names.pkl'' = n"
  "disk m n r ''model/feature_ranges.pkl'' = r"
  by (simp_all add: disk_def)

lemma index0_Inr: "index0 xs = Inr x \<Longrightarrow> x \<in> set xs"
  by (cases xs) (simp_all add: index0_def)

text \<open>
  The value of \<^verbatim>\<open>predict_cancer_risk\<close> without the state it leaves behind.
\<close>

lemma fst_predict_cancer_risk:
  "fst (predict_cancer_risk model features feature_names s) =
     (if length features \<noteq> length feature_names
        then Inl (ValueError ''Number of features doesn't match model requirements'')
      else
        (case fst (predict model [features] s) of
           Inl e \<Rightarrow> Inl e
         | Inr ys \<Rightarrow>
        (case index0 ys of
           Inl e \<Rightarrow> Inl e
         | Inr prediction \<Rightarrow>
        (case fst (predict_proba model [features] (snd (predict model [features] s))) of
           Inl e \<Rightarrow> Inl e
         | Inr ps \<Rightarrow>
        (case index0 ps of
           Inl e \<Rightarrow> Inl e
         | Inr probability \<Rightarrow> Inr (prediction, probability))))))"
proof (cases "predict model [features] s")
  case (Pair r s1)
  note first = this
  show ?thesis
  proof (cases "predict_proba model [features] s1")
    case (Pair q s2)
    with first show ?thesis
      by (simp add: predict_cancer_risk_def reshape_1_def split: sum.split)
  qed
qed

text \<open>
  A returned pair is the first entry of what each method returned for the one-row array.
\<close>

lemma predict_cancer_risk_Inr:
  assumes "predict_cancer_risk model features feature_names s = (Inr (label, probability), s')"
  shows "\<exists>ys s1 ps. predict model [features] s = (Inr ys, s1) \<and> index0 ys = Inr label \<and>
           predict_proba model [features] s1 = (Inr ps, s') \<and> index0 ps = Inr probability"
proof (cases "predict model [features] s")
  case (Pair r s1)
  note first = this
  show ?thesis
  proof (cases "predict_proba model [features] s1")
    case (Pair q s2)
    with first assms show ?thesis
      by (auto simp: predict_cancer_risk_def reshape_1_def split: sum.splits if_splits)
  qed
qed

text \<open>
  Once the three files unpickle, \<^verbatim>\<open>load_data\<close> is its chain of three checks.
\<close>

lemma load_data_Pickled:
  assumes "fs ''model/random_forest_model.pkl'' = Pickled model"
    and "fs ''model/feature_names.pkl'' = Pickled feature_names"
    and "fs ''model/feature_ranges.pkl'' = Pickled feature_ranges"
  shows "load_data fs =
     (if \<not> isinstance_RandomForestClassifier model
        then Inl (ValueError ''Loaded model is not a RandomForestClassifier'')
      else if \<not> isinstance_list feature_names \<or> \<not> truthy feature_names
        then Inl (ValueError ''Invalid or empty feature names'')
      else if \<not> isinstance_dict feature_ranges \<or> \<not> truthy feature_ranges
        then Inl (ValueError ''Invalid or empty feature ranges'')
      else Inr (model, feature_names, feature_ranges))"
  using assms by (simp add: load_data_def pickle_load_def)

text \<open>
  What a returned artifact says about the files and the objects in them.
\<close>

lemma load_data_Inr:
  assumes "load_data fs = Inr (model, feature_names, feature_ranges)"
  shows "fs ''model/random_forest_model.pkl'' = Pickled model \<and>
         fs ''model/feature_names.pkl'' = Pickled feature_names \<and>
         fs ''model/feature_ranges.pkl'' = Pickled feature_ranges \<and>
         isinstance_RandomForestClassifier model \<and>
         isinstance_list feature_names \<and> truthy feature_names \<and>
         isinstance_dict feature_ranges \<and> truthy feature_ranges"
  using assms
  by (simp add: load_data_def pickle_load_def split: blob.splits if_splits)

section \<open>Arity (C1)\<close>

text \<open>
  C1, as stated, fails for the validator. \<^verbatim>\<open>validate_input_range\<close> takes one value
  and one feature name and has no arity check: with \<^verbatim>\<open>feature_names = ["a", "b"]\<close>
  and the one-element vector \<^verbatim>\<open>[5]\<close> of Scenario 3, it answers True for the value
  under either name instead of raising.
\<close>

theorem validator_has_no_arity_check:
  "length [5::real] \<noteq> length [''a'', ''b''] \<and>
   validate_input_range 5 ''a'' scenario_ranges = Inr True \<and>
   validate_input_range 5 ''b'' scenario_ranges = Inr True"
  by (simp add: validate_input_range_def scenario_ranges_def unpack2_def)

text \<open>
  C1, amended: for every feature vector whose length differs from the length of
  \<^verbatim>\<open>feature_names\<close>, \<^verbatim>\<open>predict_cancer_risk\<close> raises ValueError with the message of
  the source; the estimator is not called (its state is the one passed in), so nothing
  is truncated or padded.
\<close>

theorem predict_cancer_risk_arity:
  "length features \<noteq> length feature_names \<Longrightarrow>
   predict_cancer_risk model features feature_names s =
     (Inl (ValueError ''Number of features doesn't match model requirements''), s)"
  by (simp add: predict_cancer_risk_def)

text \<open>
  C1, witness: Scenario 3, two feature names and the vector \<^verbatim>\<open>[5]\<close>.
\<close>

theorem predict_cancer_risk_arity_witness:
  "length [5::real] \<noteq> length [''a'', ''b''] \<and>
   predict_cancer_risk stub [5] [''a'', ''b''] () =
     (Inl (ValueError ''Number of features doesn't match model requirements''), ())"
  using predict_cancer_risk_arity [of "[5]" "[''a'', ''b'']" stub "()"] by simp

section \<open>Range membership (C2, C3, C10)\<close>

text \<open>
  C2: a feature name with no entry in \<^verbatim>\<open>feature_ranges\<close> is in range for every
  value; a name with an entry \<open>(min_val, max_val)\<close> is in range exactly when
  \<open>min_val \<le> v \<le> max_val\<close>.
\<close>

theorem validate_input_range_absent:
  "(PyStr feature_name \<notin> fst ` set feature_ranges \<longrightarrow>
      validate_input_range v feature_name feature_ranges = Inr True) \<and>
   (\<forall>entry min_val max_val.
      map_of feature_ranges (PyStr feature_name) = Some entry \<and>
      unpack2 entry = Inr (PyNum min_val, PyNum max_val) \<longrightarrow>
      validate_input_range v feature_name feature_ranges = Inr (min_val \<le> v \<and> v \<le> max_val))"
proof (intro conjI impI allI)
  assume "PyStr feature_name \<notin> fst ` set feature_ranges"
  then have "map_of feature_ranges (PyStr feature_name) = None"
    by (simp add: map_of_eq_None_iff)
  then show "validate_input_range v feature_name feature_ranges = Inr True"
    by (simp add: validate_input_range_def)
next
  fix entry min_val max_val
  assume "map_of feature_ranges (PyStr feature_name) = Some entry \<and>
      unpack2 entry = Inr (PyNum min_val, PyNum max_val)"
  then show "validate_input_range v feature_name feature_ranges =
      Inr (min_val \<le> v \<and> v \<le> max_val)"
    by (simp add: validate_input_range_def split: bool.split)
qed

text \<open>
  C2, witness: Scenario 1, where "b" has no range and 999 passes, and "a" is checked.
\<close>

theorem validate_input_range_absent_witness:
  "validate_input_range 999 ''b'' scenario_ranges = Inr True \<and>
   validate_input_range 5 ''a'' scenario_ranges = Inr True"
  using validate_input_range_absent [of "''b''" scenario_ranges 999]
        validate_input_range_absent [of "''a''" scenario_ranges 5]
  by (simp add: scenario_ranges_def unpack2_def)

text \<open>
  C3, as stated, fails for an entry whose bounds are the wrong way round: with
  \<^verbatim>\<open>{"a": (10, 0)}\<close> the value 10, equal to the stored minimum, is out of range.
\<close>

theorem inverted_range_rejects_its_own_bound:
  "validate_input_range 10 ''a'' inverted_ranges = Inr False"
  by (simp add: validate_input_range_def inverted_ranges_def unpack2_def)

text \<open>
  C3, amended: for every feature whose entry is \<open>(min_val, max_val)\<close>, a value
  equal to either bound is in range provided \<open>min_val \<le> max_val\<close>, and a value
  strictly below \<open>min_val\<close> or strictly above \<open>max_val\<close> is out of range whatever
  the order of the two bounds.
\<close>

theorem validate_input_range_inclusive:
  assumes "map_of feature_ranges (PyStr feature_name)
             = Some (PyTuple [PyNum min_val, PyNum max_val])"
  shows "(min_val \<le> max_val \<longrightarrow>
            validate_input_range min_val feature_name feature_ranges = Inr True \<and>
            validate_input_range max_val feature_name feature_ranges = Inr True) \<and>
         (v < min_val \<or> max_val < v \<longrightarrow>
            validate_input_range v feature_name feature_ranges = Inr False)"
  using assms by (auto simp: validate_input_range_def unpack2_def split: bool.split)

text \<open>
  C3, witness: Scenario 2's range (0, 10) at both bounds, at 11 and at -1, and the
  range (10, 0) at 5, which lies below its stored minimum.
\<close>

theorem validate_input_range_inclusive_witness:
  "validate_input_range 0 ''a'' scenario_ranges = Inr True \<and>
   validate_input_range 10 ''a'' scenario_ranges = Inr True \<and>
   validate_input_range 11 ''a'' scenario_ranges = Inr False \<and>
   validate_input_range (- 1) ''a'' scenario_ranges = Inr False \<and>
   validate_input_range 5 ''a'' inverted_ranges = Inr False"
  using validate_input_range_inclusive [of scenario_ranges "''a''" 0 10 11]
    validate_input_range_inclusive [of scenario_ranges "''a''" 0 10 "- 1"]
    validate_input_range_inclusive [of inverted_ranges "''a''" 10 0 5]
  by (simp add: scenario_ranges_def inverted_ranges_def)

text \<open>
  C10: for a feature whose entry is \<open>(min_val, max_val)\<close> with
  \<open>max_val < min_val\<close>, \<^verbatim>\<open>validate_input_range\<close> answers False for every value;
  and \<^verbatim>\<open>load_data\<close> returns a range map holding such an entry, as it returns any
  non-empty dict.
\<close>

theorem validate_input_range_inverted:
  assumes "map_of feature_ranges (PyStr feature_name) = Some entry"
    and "unpack2 entry = Inr (PyNum min_val, PyNum max_val)"
    and "max_val < min_val"
  shows "validate_input_range v feature_name feature_ranges = Inr False \<and>
         (fs ''model/random_forest_model.pkl'' = Pickled (RandomForestClassifier m) \<and>
          fs ''model/feature_names.pkl'' = Pickled (PyList (x # xs)) \<and>
          fs ''model/feature_ranges.pkl'' = Pickled (PyDict feature_ranges) \<longrightarrow>
          load_data fs = Inr (RandomForestClassifier m, PyList (x # xs), PyDict feature_ranges))"
proof (intro conjI impI)
  from assms show "validate_input_range v feature_name feature_ranges = Inr False"
    by (auto simp: validate_input_range_def split: bool.split)
next
  assume a: "fs ''model/random_forest_model.pkl'' = Pickled (RandomForestClassifier m) \<and>
      fs ''model/feature_names.pkl'' = Pickled (PyList (x # xs)) \<and>
      fs ''model/feature_ranges.pkl'' = Pickled (PyDict feature_ranges)"
  from assms(1) have "feature_ranges \<noteq> []"
    by auto
  with a show "load_data fs
      = Inr (RandomForestClassifier m, PyList (x # xs), PyDict feature_ranges)"
    by (simp add: load_data_def pickle_load_def)
qed

text \<open>
  C10, witness: \<^verbatim>\<open>{"a": (10, 0)}\<close> is loaded and rejects the value 5.
\<close>

theorem validate_input_range_inverted_witness:
  "load_data (disk (Pickled (RandomForestClassifier ())) (Pickled (PyList [PyStr ''a'']))
      (Pickled (PyDict inverted_ranges)))
   = Inr (RandomForestClassifier (), PyList [PyStr ''a''], PyDict inverted_ranges) \<and>
   validate_input_range 5 ''a'' inverted_ranges = Inr False"
  using validate_input_range_inverted
    [where feature_ranges = inverted_ranges and feature_name = "''a''"
      and entry = "PyTuple [PyNum 10, PyNum 0]" and min_val = 10 and max_val = 0 and v = 5
      and fs = "disk (Pickled (RandomForestClassifier ())) (Pickled (PyList [PyStr ''a'']))
        (Pickled (PyDict inverted_ranges))"
      and m = "()" and x = "PyStr ''a''" and xs = "[]"]
  by (simp add: inverted_ranges_def unpack2_def disk_paths)

section \<open>The scorer's result (C4, C8, C9)\<close>

text \<open>
  C4, as stated, fails: \<^verbatim>\<open>predict_cancer_risk\<close> hands back what the estimator
  gave. With an estimator that answers label 2 and the row (0.5, 0.7), the result for
  an arity-matching vector is that label and that row, which sums to 1.2.
\<close>

theorem skewed_stub_result:
  "predict_cancer_risk skewed_stub [42 / 10, 78 / 10] [''a'', ''b''] ()
     = (Inr (2, [5 / 10, 7 / 10]), ()) \<and>
   (2::int) \<notin> {0, 1} \<and> \<not> is_distribution [5 / 10, 7 / 10]"
  by (simp add: predict_cancer_risk_def reshape_1_def index0_def skewed_stub_def
      is_distribution_def)

text \<open>
  C4, amended: \<^verbatim>\<open>predict_cancer_risk\<close> returns a label and a row exactly when the
  arity matches and both methods answer for the one-row array, and then they are the
  first label and the first row the estimator gave, unchanged: the scorer normalises
  nothing. So if every label the estimator predicts is 0 or 1 and every row of its
  class probabilities is a probability pair, the returned label and row are too.
\<close>

theorem predict_cancer_risk_inherits_distribution:
  "(predict_cancer_risk model features feature_names s = (Inr (label, probability), s')
      \<longleftrightarrow> length features = length feature_names \<and>
          (\<exists>ys s1 ps. predict model [features] s = (Inr (label # ys), s1) \<and>
             predict_proba model [features] s1 = (Inr (probability # ps), s'))) \<and>
   (predict_cancer_risk model features feature_names s = (Inr (label, probability), s') \<and>
    (\<forall>X t ys t'. predict model X t = (Inr ys, t') \<longrightarrow> (\<forall>y \<in> set ys. y \<in> {0, 1})) \<and>
    (\<forall>X t ps t'. predict_proba model X t = (Inr ps, t') \<longrightarrow> (\<forall>p \<in> set ps. is_distribution p))
      \<longrightarrow> label \<in> {0, 1} \<and> is_distribution probability)"
proof (intro conjI iffI impI)
  assume r: "predict_cancer_risk model features feature_names s = (Inr (label, probability), s')"
  then show "length features = length feature_names"
    by (simp add: predict_cancer_risk_def split: if_splits)
  from predict_cancer_risk_Inr [OF r] obtain ys s1 ps where
    p: "predict model [features] s = (Inr ys, s1)" "index0 ys = Inr label" and
    q: "predict_proba model [features] s1 = (Inr ps, s')" "index0 ps = Inr probability"
    by blast
  from p(2) obtain ys' where "ys = label # ys'"
    by (cases ys) (simp_all add: index0_def)
  moreover from q(2) obtain ps' where "ps = probability # ps'"
    by (cases ps) (simp_all add: index0_def)
  ultimately show "\<exists>ys s1 ps. predict model [features] s = (Inr (label # ys), s1) \<and>
             predict_proba model [features] s1 = (Inr (probability # ps), s')"
    using p(1) q(1) by blast
next
  assume "length features = length feature_names \<and>
          (\<exists>ys s1 ps. predict model [features] s = (Inr (label # ys), s1) \<and>
             predict_proba model [features] s1 = (Inr (probability # ps), s'))"
  then show "predict_cancer_risk model features feature_names s
      = (Inr (label, probability), s')"
    by (auto simp: predict_cancer_risk_def reshape_1_def index0_def)
next
  assume a: "predict_cancer_risk model features feature_names s = (Inr (label, probability), s') \<and>
    (\<forall>X t ys t'. predict model X t = (Inr ys, t') \<longrightarrow> (\<forall>y \<in> set ys. y \<in> {0, 1})) \<and>
    (\<forall>X t ps t'. predict_proba model X t = (Inr ps, t') \<longrightarrow> (\<forall>p \<in> set ps. is_distribution p))"
  then have r: "predict_cancer_risk model features feature_names s
      = (Inr (label, probability), s')"
    and l: "\<forall>X t ys t'. predict model X t = (Inr ys, t') \<longrightarrow> (\<forall>y \<in> set ys. y \<in> {0, 1})"
    and d: "\<forall>X t ps t'. predict_proba model X t = (Inr ps, t') \<longrightarrow> (\<forall>p \<in> set ps. is_distribution p)"
    by (rule conjunct1, rule conjunct2 [THEN conjunct1], rule conjunct2 [THEN conjunct2])
  from predict_cancer_risk_Inr [OF r] obtain ys s1 ps where
    p: "predict model [features] s = (Inr ys, s1)" "index0 ys = Inr label" and
    q: "predict_proba model [features] s1 = (Inr ps, s')" "index0 ps = Inr probability"
    by blast
  show "label \<in> {0, 1}"
    by (rule l [rule_format, OF p(1) index0_Inr [OF p(2)]])
  show "is_distribution probability"
    by (rule d [rule_format, OF q(1) index0_Inr [OF q(2)]])
qed

text \<open>
  C4, witness: the stand-in of Scenario 5, whose row (0.2, 0.8) sums to 1.
\<close>

theorem predict_cancer_risk_inherits_distribution_witness:
  "predict_cancer_risk stub [42 / 10, 78 / 10] [''a'', ''b''] ()
     = (Inr (1, [2 / 10, 8 / 10]), ()) \<and>
   (1::int) \<in> {0, 1} \<and> is_distribution [2 / 10, 8 / 10]"
proof -
  have a: "\<forall>X t ys t'. predict stub X t = (Inr ys, t') \<longrightarrow> (\<forall>y \<in> set ys. y \<in> {0, 1})"
    by (auto simp: stub_def)
  have b: "\<forall>X t ps t'. predict_proba stub X t = (Inr ps, t') \<longrightarrow> (\<forall>p \<in> set ps. is_distribution p)"
    by (auto simp: stub_def is_distribution_def)
  have l: "length [42 / 10, 78 / 10 :: real] = length [''a'', ''b'']"
    by simp
  have e: "\<exists>ys s1 ps. predict stub [[42 / 10, 78 / 10]] () = (Inr (1 # ys), s1) \<and>
             predict_proba stub [[42 / 10, 78 / 10]] s1 = (Inr ([2 / 10, 8 / 10] # ps), ())"
    by (simp add: stub_def)
  note t = predict_cancer_risk_inherits_distribution
    [of stub "[42 / 10, 78 / 10]" "[''a'', ''b'']" "()" 1 "[2 / 10, 8 / 10]" "()"]
  have c: "predict_cancer_risk stub [42 / 10, 78 / 10] [''a'', ''b''] ()
     = (Inr (1, [2 / 10, 8 / 10]), ())"
    by (rule t [THEN conjunct1, THEN iffD2, OF conjI [OF l e]])
  have "(1::int) \<in> {0, 1} \<and> is_distribution [2 / 10, 8 / 10]"
    by (rule t [THEN conjunct2, rule_format, OF conjI [OF c conjI [OF a b]]])
  with c show ?thesis by (rule conjI)
qed

text \<open>
  C8: with a deterministic estimator, a second call of \<^verbatim>\<open>predict_cancer_risk\<close>
  with the same vector, made on the state the first call left behind, returns what
  the first call returned (the same label and probabilities, or the same exception).
\<close>

theorem predict_cancer_risk_idempotent:
  assumes "deterministic model"
  shows "fst (predict_cancer_risk model features feature_names
                (snd (predict_cancer_risk model features feature_names s)))
         = fst (predict_cancer_risk model features feature_names s)"
proof -
  have "fst (predict_cancer_risk model features feature_names t)
        = fst (predict_cancer_risk model features feature_names s)" for t
  proof -
    from assms have p: "fst (predict model [features] t) = fst (predict model [features] s)"
      by (simp add: deterministic_def)
    from assms have q: "fst (predict_proba model [features] (snd (predict model [features] t)))
        = fst (predict_proba model [features] (snd (predict model [features] s)))"
      by (simp add: deterministic_def)
    show ?thesis
      by (simp only: fst_predict_cancer_risk p q)
  qed
  then show ?thesis .
qed

text \<open>
  C8, witness: the counting stand-in has made two calls after the first invocation
  and still answers the same.
\<close>

theorem predict_cancer_risk_idempotent_witness:
  "deterministic counting_stub \<and>
   snd (predict_cancer_risk counting_stub [42 / 10, 78 / 10] [''a'', ''b''] 0) = 2 \<and>
   fst (predict_cancer_risk counting_stub [42 / 10, 78 / 10] [''a'', ''b''] 2)
     = fst (predict_cancer_risk counting_stub [42 / 10, 78 / 10] [''a'', ''b''] 0)"
proof -
  have d: "deterministic counting_stub"
    by (simp add: deterministic_def counting_stub_def)
  have s: "snd (predict_cancer_risk counting_stub [42 / 10, 78 / 10] [''a'', ''b''] 0) = 2"
    by (simp add: predict_cancer_risk_def reshape_1_def index0_def counting_stub_def)
  from predict_cancer_risk_idempotent [OF d, of "[42 / 10, 78 / 10]" "[''a'', ''b'']" 0] d s
  show ?thesis by simp
qed

text \<open>
  C9: for every estimator and every arity-matching vector, the vector is passed as
  the only row of the sample array, and the result is the first label the estimator
  predicts for it together with the first row of its class probabilities, unchanged.
\<close>

theorem predict_cancer_risk_passthrough:
  assumes "length features = length feature_names"
    and "predict model [features] s = (Inr (label # ys), s1)"
    and "predict_proba model [features] s1 = (Inr (probability # ps), s2)"
  shows "reshape_1 features = [features] \<and>
         predict_cancer_risk model features feature_names s = (Inr (label, probability), s2)"
  using assms by (simp add: predict_cancer_risk_def reshape_1_def index0_def)

text \<open>
  C9, witness: Scenario 5, the vector (4.2, 7.8) against the stand-in that answers
  label 1 and (0.2, 0.8).
\<close>

theorem predict_cancer_risk_passthrough_witness:
  "predict_cancer_risk stub [42 / 10, 78 / 10] [''a'', ''b''] ()
     = (Inr (1, [2 / 10, 8 / 10]), ())"
  using predict_cancer_risk_passthrough
    [of "[42 / 10, 78 / 10]" "[''a'', ''b'']" stub "()" 1 "[]" "()" "[2 / 10, 8 / 10]" "[]" "()"]
  by (simp add: stub_def)

section \<open>What the loader validates (C5, C6, C7)\<close>

text \<open>
  C5: when the feature-name file unpickles to an empty list or to something that is
  not a list, \<^verbatim>\<open>load_data\<close> returns no artifact; and when the other two files
  unpickle as well, the exception is a ValueError.
\<close>

theorem load_data_rejects_empty_names:
  assumes "fs ''model/feature_names.pkl'' = Pickled feature_names"
    and "\<not> isinstance_list feature_names \<or> feature_names = PyList []"
  shows "(\<exists>e. load_data fs = Inl e) \<and>
         (fs ''model/random_forest_model.pkl'' = Pickled model \<and>
          fs ''model/feature_ranges.pkl'' = Pickled feature_ranges \<longrightarrow>
            (\<exists>msg. load_data fs = Inl (ValueError msg)))"
proof (intro conjI impI)
  show "\<exists>e. load_data fs = Inl e"
  proof (cases "load_data fs")
    case (Inl e)
    then show ?thesis by simp
  next
    case (Inr artifact)
    then obtain m n r where "load_data fs = Inr (m, n, r)"
      by (cases artifact) simp
    from load_data_Inr [OF this] assms show ?thesis
      by auto
  qed
next
  assume "fs ''model/random_forest_model.pkl'' = Pickled model \<and>
          fs ''model/feature_ranges.pkl'' = Pickled feature_ranges"
  then have "load_data fs =
     (if \<not> isinstance_RandomForestClassifier model
        then Inl (ValueError ''Loaded model is not a RandomForestClassifier'')
      else Inl (ValueError ''Invalid or empty feature names''))"
    using assms by (auto simp: load_data_Pickled [of fs model feature_names feature_ranges])
  then show "\<exists>msg. load_data fs = Inl (ValueError msg)"
    by (cases "isinstance_RandomForestClassifier model") simp_all
qed

text \<open>
  C5, witness: Scenario 4 (an empty list), and a string in place of the list.
\<close>

theorem load_data_rejects_empty_names_witness:
  "load_data (disk (Pickled (RandomForestClassifier ())) (Pickled (PyList []))
      (Pickled (PyDict scenario_ranges)))
   = Inl (ValueError ''Invalid or empty feature names'') \<and>
   load_data (disk (Pickled (RandomForestClassifier ())) (Pickled (PyStr ''radius''))
      (Pickled (PyDict scenario_ranges)))
   = Inl (ValueError ''Invalid or empty feature names'')"
  using load_data_rejects_empty_names
    [where fs = "disk (Pickled (RandomForestClassifier ())) (Pickled (PyList []))
      (Pickled (PyDict scenario_ranges))"
      and feature_names = "PyList []" and model = "RandomForestClassifier ()"
      and feature_ranges = "PyDict scenario_ranges"]
    load_data_rejects_empty_names
    [where fs = "disk (Pickled (RandomForestClassifier ())) (Pickled (PyStr ''radius''))
      (Pickled (PyDict scenario_ranges))"
      and feature_names = "PyStr ''radius''" and model = "RandomForestClassifier ()"
      and feature_ranges = "PyDict scenario_ranges"]
  by (simp add: disk_paths load_data_def pickle_load_def scenario_ranges_def)

text \<open>
  C6, as stated, fails: \<^verbatim>\<open>load_data\<close> has no uniqueness check. The name list
  \<^verbatim>\<open>["a", "a"]\<close> is returned as it is.
\<close>

theorem load_data_accepts_duplicate_names:
  "load_data (disk (Pickled (RandomForestClassifier ()))
      (Pickled (PyList [PyStr ''a'', PyStr ''a'']))
      (Pickled (PyDict scenario_ranges)))
   = Inr (RandomForestClassifier (), PyList [PyStr ''a'', PyStr ''a''], PyDict scenario_ranges)
   \<and> \<not> distinct [PyStr ''a'' :: unit pyobj, PyStr ''a'']"
  by (simp add: load_data_def pickle_load_def disk_def scenario_ranges_def)

text \<open>
  C6, amended: of the feature names \<^verbatim>\<open>load_data\<close> checks that they are a
  non-empty list and nothing else. With a RandomForestClassifier and a non-empty
  range dict, the artifact is returned exactly when the names are a non-empty list,
  whatever the entries; otherwise the ValueError for the names is raised.
\<close>

theorem load_data_names_check:
  assumes "fs ''model/random_forest_model.pkl'' = Pickled (RandomForestClassifier m)"
    and "fs ''model/feature_names.pkl'' = Pickled feature_names"
    and "fs ''model/feature_ranges.pkl'' = Pickled (PyDict (kv # kvs))"
  shows "load_data fs =
     (if isinstance_list feature_names \<and> truthy feature_names
        then Inr (RandomForestClassifier m, feature_names, PyDict (kv # kvs))
      else Inl (ValueError ''Invalid or empty feature names''))"
  by (simp add: load_data_Pickled [OF assms])

text \<open>
  C6, witness: a name list with a duplicate and a number in it is returned.
\<close>

theorem load_data_names_check_witness:
  "load_data (disk (Pickled (RandomForestClassifier ()))
      (Pickled (PyList [PyStr ''a'', PyNum 3, PyStr ''a'']))
      (Pickled (PyDict [(PyStr ''a'', PyTuple [PyNum 0, PyNum 10])])))
   = Inr (RandomForestClassifier (), PyList [PyStr ''a'', PyNum 3, PyStr ''a''],
          PyDict [(PyStr ''a'', PyTuple [PyNum 0, PyNum 10])])"
  using load_data_names_check
    [of "disk (Pickled (RandomForestClassifier ()))
      (Pickled (PyList [PyStr ''a'', PyNum 3, PyStr ''a'']))
      (Pickled (PyDict [(PyStr ''a'', PyTuple [PyNum 0, PyNum 10])]))"
      "()" "PyList [PyStr ''a'', PyNum 3, PyStr ''a'']"
      "(PyStr ''a'', PyTuple [PyNum 0, PyNum 10])" "[]"]
  by (simp add: disk_paths)

text \<open>
  C7, as stated, fails: \<^verbatim>\<open>load_data\<close> does not look at the range entries. A
  dict with the entry (10, 0) and an entry that is None is returned as it is.
\<close>

theorem load_data_accepts_malformed_ranges:
  "load_data (disk (Pickled (RandomForestClassifier ()))
      (Pickled (PyList [PyStr ''a'', PyStr ''b'']))
      (Pickled (PyDict [(PyStr ''a'', PyTuple [PyNum 10, PyNum 0]), (PyStr ''b'', PyNone)])))
   = Inr (RandomForestClassifier (), PyList [PyStr ''a'', PyStr ''b''],
          PyDict [(PyStr ''a'', PyTuple [PyNum 10, PyNum 0]), (PyStr ''b'', PyNone)])"
  by (simp add: load_data_def pickle_load_def disk_def)

text \<open>
  C7, amended: of the feature ranges \<^verbatim>\<open>load_data\<close> checks that they are a
  non-empty dict and nothing else. With a RandomForestClassifier and a non-empty
  name list, the artifact is returned exactly when the ranges are a non-empty dict,
  whatever the entries; otherwise the ValueError for the ranges is raised.
\<close>

theorem load_data_ranges_check:
  assumes "fs ''model/random_forest_model.pkl'' = Pickled (RandomForestClassifier m)"
    and "fs ''model/feature_names.pkl'' = Pickled (PyList (x # xs))"
    and "fs ''model/feature_ranges.pkl'' = Pickled feature_ranges"
  shows "load_data fs =
     (if isinstance_dict feature_ranges \<and> truthy feature_ranges
        then Inr (RandomForestClassifier m, PyList (x # xs), feature_ranges)
      else Inl (ValueError ''Invalid or empty feature ranges''))"
  by (simp add: load_data_Pickled [OF assms])

text \<open>
  C7, witness: a dict whose entry is a string is returned; an empty dict is refused.
\<close>

theorem load_data_ranges_check_witness:
  "load_data (disk (Pickled (RandomForestClassifier ()))
      (Pickled (PyList [PyStr ''a'']))
      (Pickled (PyDict [(PyStr ''a'', PyStr ''wide'')])))
   = Inr (RandomForestClassifier (), PyList [PyStr ''a''],
          PyDict [(PyStr ''a'', PyStr ''wide'')])
   \<and> load_data (disk (Pickled (RandomForestClassifier ()))
      (Pickled (PyList [PyStr ''a''])) (Pickled (PyDict [])))
   = Inl (ValueError ''Invalid or empty feature ranges'')"
  using load_data_ranges_check
    [of "disk (Pickled (RandomForestClassifier ()))
      (Pickled (PyList [PyStr ''a'']))
      (Pickled (PyDict [(PyStr ''a'', PyStr ''wide'')]))"
      "()" "PyStr ''a''" "[]" "PyDict [(PyStr ''a'', PyStr ''wide'')]"]
    load_data_ranges_check
    [of "disk (Pickled (RandomForestClassifier ()))
      (Pickled (PyList [PyStr ''a''])) (Pickled (PyDict []))"
      "()" "PyStr ''a''" "[]" "PyDict []"]
  by (simp add: disk_paths)

end
